theory Spec2Isabelle
  imports Main "HOL-Library.Multiset" "HOL-Library.Sublist" "HOL-Library.Word"
begin

section \<open>Institutions management screen (src/views/admin/InstitutionsManagement.tsx)\<close>

text \<open>
  The component keeps a list of institution records in local state, derives a filtered
  and sorted view from it, and patches the list after each remote write. The handlers
  are embedded as functions from the component state to the new state together with the
  list of effects they issued (remote calls, console output, alerts), in the order the
  source issues them.
\<close>

subsection \<open>Strings\<close>

text \<open>
  A string of the source is a sequence of 16-bit code units; \<open>length\<close>, \<open>===\<close> and
  \<open>includes\<close> work on the code units. \<open>str\<close> writes a string of ASCII text.
\<close>

type_synonym codeUnit = "16 word"

type_synonym jsString = "codeUnit list"

definition str :: "string \<Rightarrow> jsString" where
  "str s = map of_char s"

text \<open>
  \<open>String.prototype.trim\<close> strips, at both ends, the code units that are white space or
  line terminators of the language: TAB, LF, VT, FF, CR, SPACE, NO-BREAK SPACE (U+00A0),
  U+1680, U+2000 to U+200A, U+2028, U+2029, U+202F, U+205F, U+3000 and U+FEFF.
\<close>

definition isWhiteSpace :: "codeUnit \<Rightarrow> bool" where
  "isWhiteSpace c =
     (c \<in> {0x0009, 0x000A, 0x000B, 0x000C, 0x000D, 0x0020, 0x00A0, 0x1680,
            0x2028, 0x2029, 0x202F, 0x205F, 0x3000, 0xFEFF}
      \<or> (0x2000 \<le> c \<and> c \<le> 0x200A))"

definition trim :: "jsString \<Rightarrow> jsString" where
  "trim s = rev (dropWhile isWhiteSpace (rev (dropWhile isWhiteSpace s)))"

text \<open>\<open>s.includes(t)\<close>: \<open>t\<close> occurs in \<open>s\<close> as a contiguous run, starting at some position.\<close>

fun includes' :: "jsString \<Rightarrow> jsString \<Rightarrow> bool" where
  "includes' [] t = (t = [])"
| "includes' (c # s) t = (prefix t (c # s) \<or> includes' s t)"

text \<open>
  \<open>String.prototype.toUpperCase\<close> and \<open>String.prototype.toLowerCase\<close> are built into
  the language and follow the case mappings of Unicode, which may change the length of a
  string and depend on the neighbours of a letter. They are a parameter \<open>js\<close> of every
  function that calls them; nothing is assumed of them.
\<close>

record CaseMapping =
  toUpperCase :: "jsString \<Rightarrow> jsString"
  toLowerCase :: "jsString \<Rightarrow> jsString"

subsection \<open>Data model\<close>

text \<open>
  The interface \<open>FacultyCode\<close> is imported from a file outside this component. The
  source guards both of its fields against absence (\<open>a.institution || ""\<close>,
  \<open>inst.facultyCode?.toLowerCase()\<close>), so both are optional here; \<open>id\<close> is always
  present (\<open>FacultyCodeWithId\<close>).
\<close>

record FacultyCode =
  institution :: "jsString option"
  facultyCode :: "jsString option"

record FacultyCodeWithId = FacultyCode +
  id' :: jsString

record FormData =
  formInstitution :: jsString
  formFacultyCode :: jsString

text \<open>
  The messages stored in \<open>formError\<close>; \<open>NoError\<close> is the empty string.
  \<^item> \<open>NameRequired\<close>: "El nombre de la institucion es requerido"
  \<^item> \<open>CodeLength\<close>: "El codigo debe tener exactamente 6 caracteres"
  \<^item> \<open>CodeInUse\<close>: "Este codigo ya esta en uso"
  \<^item> \<open>CreateFailed\<close>: "Error al crear la institucion. Por favor intenta de nuevo."
  \<^item> \<open>UpdateFailed\<close>: "Error al actualizar la institucion. Por favor intenta de nuevo."
\<close>

datatype FormError = NoError | NameRequired | CodeLength | CodeInUse | CreateFailed | UpdateFailed

record State =
  institutions :: "FacultyCodeWithId list"
  filteredInstitutions :: "FacultyCodeWithId list"
  isLoading :: bool
  sortOption :: string
  searchTerm :: jsString
  showAddModal :: bool
  showEditModal :: bool
  showDeleteModal :: bool
  selectedInstitution :: "FacultyCodeWithId option"
  formData :: FormData
  isSaving :: bool
  isDeleting :: bool
  formError :: FormError

subsection \<open>The document store and the effects of a handler\<close>

text \<open>
  \<open>FirestoreService\<close> is an external collaborator: each operation either throws or
  returns. The handlers take its answers as a parameter; every operation gets the
  collection name first. The names the program itself writes (the collection, the sort
  options) are ASCII literals and stay of type \<open>string\<close>; the text that comes from the user
  or from the store is a \<open>jsString\<close>.
\<close>

datatype JsError = JsError string

record FirestoreService =
  fsGetAll :: "string \<Rightarrow> JsError + FacultyCodeWithId list"
  fsAdd :: "string \<Rightarrow> FacultyCode \<Rightarrow> JsError + jsString"
  fsUpdate :: "string \<Rightarrow> jsString \<Rightarrow> FacultyCode \<Rightarrow> JsError + unit"
  fsDelete :: "string \<Rightarrow> jsString \<Rightarrow> JsError + unit"

datatype Effect =
    CallGetAll string
  | CallAdd string FacultyCode
  | CallUpdate string jsString FacultyCode
  | CallDelete string jsString
  | ConsoleLog
  | ConsoleError
  | Alert

subsection \<open>Fetch\<close>

definition fetchInstitutions :: "FirestoreService \<Rightarrow> State \<Rightarrow> State \<times> Effect list" where
  "fetchInstitutions fs st =
     (let st1 = st\<lparr>isLoading := True\<rparr> in
      case fsGetAll fs ''facultyCodes'' of
        Inr data \<Rightarrow>
          (st1\<lparr>institutions := data, isLoading := False\<rparr>,
           [CallGetAll ''facultyCodes'', ConsoleLog])
      | Inl err \<Rightarrow>
          (st1\<lparr>institutions := [], isLoading := False\<rparr>,
           [CallGetAll ''facultyCodes'', ConsoleError]))"

subsection \<open>Sort\<close>

text \<open>
  \<open>Array.prototype.sort\<close> and \<open>String.prototype.localeCompare\<close> are built into the
  language. The comparison of two strings is a parameter \<open>lc\<close> (negative, zero or
  positive). The sort is the stable sort the language prescribes for a consistent
  comparator: each element goes in front of the first element it does not exceed.
\<close>

fun sortInsert :: "('a \<Rightarrow> 'a \<Rightarrow> int) \<Rightarrow> 'a \<Rightarrow> 'a list \<Rightarrow> 'a list" where
  "sortInsert cmp x [] = [x]"
| "sortInsert cmp x (y # ys) = (if cmp x y \<le> 0 then x # y # ys else y # sortInsert cmp x ys)"

fun arraySort :: "('a \<Rightarrow> 'a \<Rightarrow> int) \<Rightarrow> 'a list \<Rightarrow> 'a list" where
  "arraySort cmp [] = []"
| "arraySort cmp (x # xs) = sortInsert cmp x (arraySort cmp xs)"

text \<open>\<open>v || ""\<close> on an optional string.\<close>

definition orEmpty :: "jsString option \<Rightarrow> jsString" where
  "orEmpty v = (case v of None \<Rightarrow> [] | Some s \<Rightarrow> s)"

definition sortInstitutions ::
  "(jsString \<Rightarrow> jsString \<Rightarrow> int) \<Rightarrow> FacultyCodeWithId list \<Rightarrow> string \<Rightarrow> FacultyCodeWithId list" where
  "sortInstitutions lc institutionsList option =
     (let sorted = institutionsList in
      if option = ''alphabetical'' then
        arraySort (\<lambda>a b. lc (orEmpty (institution a)) (orEmpty (institution b))) sorted
      else if option = ''reverse-alphabetical'' then
        arraySort (\<lambda>a b. lc (orEmpty (institution b)) (orEmpty (institution a))) sorted
      else if option = ''code-asc'' then
        arraySort (\<lambda>a b. lc (orEmpty (facultyCode a)) (orEmpty (facultyCode b))) sorted
      else if option = ''code-desc'' then
        arraySort (\<lambda>a b. lc (orEmpty (facultyCode b)) (orEmpty (facultyCode a))) sorted
      else sorted)"

subsection \<open>Filter\<close>

text \<open>\<open>v?.toLowerCase().includes(searchLower)\<close>: an absent field gives a falsy value.\<close>

definition fieldIncludes :: "CaseMapping \<Rightarrow> jsString option \<Rightarrow> jsString \<Rightarrow> bool" where
  "fieldIncludes js v searchLower =
     (case v of None \<Rightarrow> False | Some s \<Rightarrow> includes' (toLowerCase js s) searchLower)"

definition filterInstitutions ::
  "CaseMapping \<Rightarrow> FacultyCodeWithId list \<Rightarrow> jsString \<Rightarrow> FacultyCodeWithId list" where
  "filterInstitutions js institutionsList search =
     (if trim search = [] then institutionsList
      else let searchLower = toLowerCase js search in
        filter (\<lambda>inst. fieldIncludes js (institution inst) searchLower
                      \<or> fieldIncludes js (facultyCode inst) searchLower) institutionsList)"

text \<open>
  The effect that follows every change of \<open>institutions\<close>, \<open>sortOption\<close> or
  \<open>searchTerm\<close>: the rendered table is the filtered list, sorted.
\<close>

definition updateFilteredInstitutions ::
  "CaseMapping \<Rightarrow> (jsString \<Rightarrow> jsString \<Rightarrow> int) \<Rightarrow> State \<Rightarrow> State" where
  "updateFilteredInstitutions js lc st =
     (let filtered = filterInstitutions js (institutions st) (searchTerm st);
          sorted = sortInstitutions lc filtered (sortOption st)
      in st\<lparr>filteredInstitutions := sorted\<rparr>)"

text \<open>
  \<open>sortInstitutions\<close> on references. An array lives in a store of arrays and is known by
  its index there. \<open>[...institutionsList]\<close> allocates a new array holding the elements
  of the argument; \<open>sort\<close> rearranges that new array in place and returns it. A reference
  that is not allocated gives \<open>None\<close>.
\<close>

type_synonym ArrayStore = "FacultyCodeWithId list list"

definition sortInstitutionsRef ::
  "(jsString \<Rightarrow> jsString \<Rightarrow> int) \<Rightarrow> ArrayStore \<Rightarrow> nat \<Rightarrow> string \<Rightarrow> (ArrayStore \<times> nat) option" where
  "sortInstitutionsRef lc store institutionsList option =
     (if institutionsList < length store then
        let sorted = length store;
            store1 = store @ [store ! institutionsList]
        in Some (store1[sorted := sortInstitutions lc (store1 ! sorted) option], sorted)
      else None)"

subsection \<open>Code uniqueness and code generation\<close>

text \<open>
  \<open>excludeId\<close> is an optional argument; \<open>inst.id !== undefined\<close> holds for every
  record.
\<close>

definition isCodeUnique :: "State \<Rightarrow> jsString \<Rightarrow> jsString option \<Rightarrow> bool" where
  "isCodeUnique st code excludeId =
     (\<not> list_ex (\<lambda>inst. facultyCode inst = Some code \<and> Some (id' inst) \<noteq> excludeId)
          (institutions st))"

text \<open>
  \<open>generateFacultyCode\<close> is an external generator; \<open>gen n\<close> is the code its call number
  \<open>n\<close> returns. The loop of \<open>handleGenerateNewCode\<close> has no bound: \<open>None\<close> stands for
  a loop that never ends. \<open>generateLoop st gen n newCode\<close> is the loop at the moment
  \<open>n\<close> calls have been made and \<open>newCode\<close> holds the last result.
\<close>

partial_function (option) generateLoop ::
  "State \<Rightarrow> (nat \<Rightarrow> jsString) \<Rightarrow> nat \<Rightarrow> jsString \<Rightarrow> jsString option" where
  "generateLoop st gen n newCode =
     (if \<not> isCodeUnique st newCode None then generateLoop st gen (Suc n) (gen n)
      else Some newCode)"

declare generateLoop.simps [code]

definition handleGenerateNewCode :: "(nat \<Rightarrow> jsString) \<Rightarrow> State \<Rightarrow> State option" where
  "handleGenerateNewCode gen st =
     (case generateLoop st gen 1 (gen 0) of
        None \<Rightarrow> None
      | Some newCode \<Rightarrow> Some (st\<lparr>formData := (formData st)\<lparr>formFacultyCode := newCode\<rparr>\<rparr>))"

subsection \<open>Add, edit, delete\<close>

text \<open>
  A handler runs from the click to the end of its \<open>finally\<close> block; no other handler
  runs in between (each modal disables its buttons while its write is pending).
\<close>

definition handleAddInstitution ::
  "CaseMapping \<Rightarrow> FirestoreService \<Rightarrow> State \<Rightarrow> State \<times> Effect list" where
  "handleAddInstitution js fs st =
     (if trim (formInstitution (formData st)) = [] then (st\<lparr>formError := NameRequired\<rparr>, [])
      else if trim (formFacultyCode (formData st)) = []
              \<or> length (formFacultyCode (formData st)) \<noteq> 6 then
        (st\<lparr>formError := CodeLength\<rparr>, [])
      else if \<not> isCodeUnique st (formFacultyCode (formData st)) None then
        (st\<lparr>formError := CodeInUse\<rparr>, [])
      else
        let st1 = st\<lparr>isSaving := True, formError := NoError\<rparr>;
            newInstitution =
              \<lparr>institution = Some (trim (formInstitution (formData st))),
               facultyCode = Some (toUpperCase js (formFacultyCode (formData st)))\<rparr>
        in case fsAdd fs ''facultyCodes'' newInstitution of
             Inr docId \<Rightarrow>
               (st1\<lparr>institutions :=
                      institutions st1 @
                        [\<lparr>institution = institution newInstitution,
                          facultyCode = facultyCode newInstitution, id' = docId\<rparr>],
                    showAddModal := False,
                    formData := \<lparr>formInstitution = [], formFacultyCode = []\<rparr>,
                    isSaving := False\<rparr>,
                [CallAdd ''facultyCodes'' newInstitution, ConsoleLog])
           | Inl err \<Rightarrow>
               (st1\<lparr>formError := CreateFailed, isSaving := False\<rparr>,
                [CallAdd ''facultyCodes'' newInstitution, ConsoleError]))"

definition handleEditInstitution ::
  "CaseMapping \<Rightarrow> FirestoreService \<Rightarrow> State \<Rightarrow> State \<times> Effect list" where
  "handleEditInstitution js fs st =
     (case selectedInstitution st of
        None \<Rightarrow> (st, [])
      | Some sel \<Rightarrow>
         if trim (formInstitution (formData st)) = [] then (st\<lparr>formError := NameRequired\<rparr>, [])
         else if trim (formFacultyCode (formData st)) = []
                 \<or> length (formFacultyCode (formData st)) \<noteq> 6 then
           (st\<lparr>formError := CodeLength\<rparr>, [])
         else if \<not> isCodeUnique st (formFacultyCode (formData st)) (Some (id' sel)) then
           (st\<lparr>formError := CodeInUse\<rparr>, [])
         else
           let st1 = st\<lparr>isSaving := True, formError := NoError\<rparr>;
               updatedData =
                 \<lparr>institution = Some (trim (formInstitution (formData st))),
                  facultyCode = Some (toUpperCase js (formFacultyCode (formData st)))\<rparr>
           in case fsUpdate fs ''facultyCodes'' (id' sel) updatedData of
                Inr u \<Rightarrow>
                  (st1\<lparr>institutions :=
                         map (\<lambda>inst. if id' inst = id' sel
                                      then inst\<lparr>institution := institution updatedData,
                                                facultyCode := facultyCode updatedData\<rparr>
                                      else inst) (institutions st1),
                       showEditModal := False,
                       selectedInstitution := None,
                       formData := \<lparr>formInstitution = [], formFacultyCode = []\<rparr>,
                       isSaving := False\<rparr>,
                   [CallUpdate ''facultyCodes'' (id' sel) updatedData, ConsoleLog])
              | Inl err \<Rightarrow>
                  (st1\<lparr>formError := UpdateFailed, isSaving := False\<rparr>,
                   [CallUpdate ''facultyCodes'' (id' sel) updatedData, ConsoleError]))"

definition handleDeleteInstitution :: "FirestoreService \<Rightarrow> State \<Rightarrow> State \<times> Effect list" where
  "handleDeleteInstitution fs st =
     (case selectedInstitution st of
        None \<Rightarrow> (st, [])
      | Some sel \<Rightarrow>
         let st1 = st\<lparr>isDeleting := True\<rparr>
         in case fsDelete fs ''facultyCodes'' (id' sel) of
              Inr u \<Rightarrow>
                (st1\<lparr>institutions := filter (\<lambda>inst. id' inst \<noteq> id' sel) (institutions st1),
                     showDeleteModal := False,
                     selectedInstitution := None,
                     isDeleting := False\<rparr>,
                 [CallDelete ''facultyCodes'' (id' sel), ConsoleLog])
            | Inl err \<Rightarrow>
                (st1\<lparr>isDeleting := False\<rparr>,
                 [CallDelete ''facultyCodes'' (id' sel), ConsoleError, Alert]))"

subsection \<open>The properties of the specification, in its own words\<close>



text \<open>No two records of the list share a \<open>facultyCode\<close>.\<close>

definition codesUnique :: "FacultyCodeWithId list \<Rightarrow> bool" where
  "codesUnique l = distinct (map facultyCode l)"

subsection \<open>Example data\<close>

text \<open>The state of the component when it mounts (the initial values of its state hooks).\<close>

definition initialState :: State where
  "initialState =
     \<lparr>institutions = [], filteredInstitutions = [], isLoading = True,
      sortOption = ''alphabetical'', searchTerm = [],
      showAddModal = False, showEditModal = False, showDeleteModal = False,
      selectedInstitution = None,
      formData = \<lparr>formInstitution = [], formFacultyCode = []\<rparr>,
      isSaving = False, isDeleting = False, formError = NoError\<rparr>"

definition colegioUno :: FacultyCodeWithId where
  "colegioUno = \<lparr>institution = Some (str ''Colegio Uno''), facultyCode = Some (str ''abc123''), id' = (str ''1'')\<rparr>"

definition colegioDos :: FacultyCodeWithId where
  "colegioDos = \<lparr>institution = Some (str ''Colegio Dos''), facultyCode = Some (str ''ABC123''), id' = (str ''2'')\<rparr>"

definition liceoTres :: FacultyCodeWithId where
  "liceoTres = \<lparr>institution = Some (str ''Liceo Tres''), facultyCode = Some (str ''ABC123''), id' = (str ''3'')\<rparr>"

definition rioclaro :: FacultyCodeWithId where
  "rioclaro = \<lparr>institution = Some (str ''Colegio Rioclaro''), facultyCode = Some (str ''XY12AB''), id' = (str ''7'')\<rparr>"

text \<open>
  A sample case mapping for the examples: the letters a-z and A-Z are mapped, every other
  code unit is left alone. On ASCII text it agrees with the mappings of the language.
\<close>

definition asciiCase :: CaseMapping where
  "asciiCase =
     \<lparr>toUpperCase = map (\<lambda>c. if 0x61 \<le> c \<and> c \<le> 0x7A then c - 0x20 else c),
      toLowerCase = map (\<lambda>c. if 0x41 \<le> c \<and> c \<le> 0x5A then c + 0x20 else c)\<rparr>"

text \<open>A store whose every operation succeeds, and one whose every operation throws.\<close>

definition workingStore :: FirestoreService where
  "workingStore =
     \<lparr>fsGetAll = (\<lambda>c. Inr [colegioDos, rioclaro]),
      fsAdd = (\<lambda>c r. Inr (str ''9'')),
      fsUpdate = (\<lambda>c i r. Inr ()),
      fsDelete = (\<lambda>c i. Inr ())\<rparr>"

definition failingStore :: FirestoreService where
  "failingStore =
     \<lparr>fsGetAll = (\<lambda>c. Inl (JsError ''unavailable'')),
      fsAdd = (\<lambda>c r. Inl (JsError ''unavailable'')),
      fsUpdate = (\<lambda>c i r. Inl (JsError ''unavailable'')),
      fsDelete = (\<lambda>c i. Inl (JsError ''unavailable''))\<rparr>"

text \<open>A generator that repeats a code already in use twice before it gives a new one.\<close>

definition repeatingGenerator :: "nat \<Rightarrow> jsString" where
  "repeatingGenerator n = (if n < 2 then (str ''ABC123'') else (str ''QW34ER''))"

text \<open>A comparison of strings by their code units, as a sample \<open>localeCompare\<close>.\<close>

fun codeUnitCompare :: "jsString \<Rightarrow> jsString \<Rightarrow> int" where
  "codeUnitCompare [] [] = 0"
| "codeUnitCompare [] (y # ys) = - 1"
| "codeUnitCompare (x # xs) [] = 1"
| "codeUnitCompare (x # xs) (y # ys) =
     (if x < y then - 1
      else if y < x then 1
      else codeUnitCompare xs ys)"



text \<open>States of the component used in the examples below.\<close>

text \<open>A state with two records loaded.\<close>

definition loadedState :: State where
  "loadedState = initialState\<lparr>institutions := [colegioDos, rioclaro], isLoading := False\<rparr>"

text \<open>The add modal with a name padded with blanks and a new code typed in lower case.\<close>

definition addRioclaroState :: State where
  "addRioclaroState =
     initialState\<lparr>institutions := [colegioDos], isLoading := False, showAddModal := True,
       formData := \<lparr>formInstitution = (str ''  Colegio Rioclaro ''), formFacultyCode = (str ''xy12ab'')\<rparr>\<rparr>"

text \<open>The add modal with a name and the code of an existing record.\<close>

definition duplicateAddState :: State where
  "duplicateAddState =
     initialState\<lparr>institutions := [rioclaro], isLoading := False, showAddModal := True,
       formData := \<lparr>formInstitution = (str ''Otro Colegio''), formFacultyCode = (str ''XY12AB'')\<rparr>\<rparr>"

text \<open>The add modal with an empty name and the code of an existing record.\<close>

definition blankNameDuplicateState :: State where
  "blankNameDuplicateState =
     initialState\<lparr>institutions := [rioclaro], isLoading := False, showAddModal := True,
       formData := \<lparr>formInstitution = [], formFacultyCode = (str ''XY12AB'')\<rparr>\<rparr>"

text \<open>The add modal with a name of one NO-BREAK SPACE and the code of an existing record.\<close>

definition nbspNameDuplicateState :: State where
  "nbspNameDuplicateState =
     initialState\<lparr>institutions := [rioclaro], isLoading := False, showAddModal := True,
       formData := \<lparr>formInstitution = [0x00A0], formFacultyCode = (str ''XY12AB'')\<rparr>\<rparr>"

text \<open>The add modal with a form code in lower case that an existing record has in upper case.\<close>

definition addLowerCaseState :: State where
  "addLowerCaseState =
     initialState\<lparr>institutions := [colegioDos], isLoading := False, showAddModal := True,
       formData := \<lparr>formInstitution = (str ''Colegio Nuevo''), formFacultyCode = (str ''abc123'')\<rparr>\<rparr>"

text \<open>The edit modal opened on a record whose stored code is in lower case, next to a record
  with the same code in upper case; the form is as \<open>openEditModal\<close> fills it.\<close>

definition editLowerCaseState :: State where
  "editLowerCaseState =
     initialState\<lparr>institutions := [colegioUno, colegioDos], isLoading := False,
       showEditModal := True, selectedInstitution := Some colegioUno,
       formData := \<lparr>formInstitution = (str ''Colegio Uno''), formFacultyCode = (str ''abc123'')\<rparr>\<rparr>"

text \<open>The edit modal opened on a record, the form left as filled.\<close>

definition editUnchangedState :: State where
  "editUnchangedState =
     initialState\<lparr>institutions := [colegioDos, rioclaro], isLoading := False,
       showEditModal := True, selectedInstitution := Some colegioDos,
       formData := \<lparr>formInstitution = (str ''Colegio Dos''), formFacultyCode = (str ''ABC123'')\<rparr>\<rparr>"

text \<open>The edit modal opened on a record whose code a second record also has.\<close>

definition editDuplicateState :: State where
  "editDuplicateState =
     initialState\<lparr>institutions := [colegioDos, liceoTres], isLoading := False,
       showEditModal := True, selectedInstitution := Some colegioDos,
       formData := \<lparr>formInstitution = (str ''Colegio Dos''), formFacultyCode = (str ''ABC123'')\<rparr>\<rparr>"

text \<open>The delete modal opened on the second of three records.\<close>

definition deleteDosState :: State where
  "deleteDosState =
     initialState\<lparr>institutions := [colegioUno, colegioDos, rioclaro], isLoading := False,
       showDeleteModal := True, selectedInstitution := Some colegioDos\<rparr>"

text \<open>The add modal whose form holds a code that is already in use.\<close>

definition regenerateState :: State where
  "regenerateState =
     initialState\<lparr>institutions := [colegioDos, rioclaro], isLoading := False, showAddModal := True,
       formData := \<lparr>formInstitution = (str ''Colegio Nuevo''), formFacultyCode = (str ''ABC123'')\<rparr>\<rparr>"

section \<open>Lemmas\<close>

subsection \<open>Strings\<close>






subsection \<open>Sorting\<close>

lemma mset_sortInsert: "mset (sortInsert cmp x ys) = add_mset x (mset ys)"
  by (induction ys) simp_all

lemma mset_arraySort: "mset (arraySort cmp xs) = mset xs"
  by (induction xs) (simp_all add: mset_sortInsert)

lemma mset_sortInstitutions: "mset (sortInstitutions lc l option) = mset l"
  by (simp add: sortInstitutions_def mset_arraySort)

lemma sorted_sortInsert:
  assumes tot: "\<And>a b. cmp a b \<le> 0 \<or> cmp b a \<le> 0"
    and trans: "\<And>a b c. cmp a b \<le> 0 \<Longrightarrow> cmp b c \<le> 0 \<Longrightarrow> cmp a c \<le> 0"
  shows "sorted_wrt (\<lambda>a b. cmp a b \<le> 0) ys \<Longrightarrow> sorted_wrt (\<lambda>a b. cmp a b \<le> 0) (sortInsert cmp x ys)"
proof (induction ys)
  case Nil
  then show ?case by simp
next
  case (Cons y ys)
  show ?case
  proof (cases "cmp x y \<le> 0")
    case True
    then have "\<forall>z\<in>set ys. cmp x z \<le> 0" using Cons.prems trans by auto
    then show ?thesis using True Cons.prems by simp
  next
    case False
    then have "cmp y x \<le> 0" using tot [of x y] by simp
    moreover have "set (sortInsert cmp x ys) = insert x (set ys)"
      using mset_sortInsert [of cmp x ys] by (metis set_mset_add_mset_insert set_mset_mset)
    ultimately show ?thesis using False Cons by simp
  qed
qed

lemma sorted_arraySort:
  assumes tot: "\<And>a b. cmp a b \<le> 0 \<or> cmp b a \<le> 0"
    and trans: "\<And>a b c. cmp a b \<le> 0 \<Longrightarrow> cmp b c \<le> 0 \<Longrightarrow> cmp a c \<le> 0"
  shows "sorted_wrt (\<lambda>a b. cmp a b \<le> 0) (arraySort cmp xs)"
proof (induction xs)
  case Nil
  show ?case by simp
next
  case (Cons x xs)
  then show ?case using sorted_sortInsert [of cmp, OF tot trans] by simp
qed

lemma sorted_by_key:
  assumes tot: "\<forall>a b. lc a b \<le> 0 \<or> lc b a \<le> 0"
    and trans: "\<forall>a b c. lc a b \<le> 0 \<longrightarrow> lc b c \<le> 0 \<longrightarrow> lc a c \<le> 0"
  shows "sorted_wrt (\<lambda>a b. lc (k a) (k b) \<le> 0) (arraySort (\<lambda>a b. lc (k a) (k b)) xs)"
    and "sorted_wrt (\<lambda>a b. lc (k b) (k a) \<le> 0) (arraySort (\<lambda>a b. lc (k b) (k a)) xs)"
proof -
  have t1: "\<And>a b. lc (k a) (k b) \<le> 0 \<or> lc (k b) (k a) \<le> 0" using tot by blast
  have t2: "\<And>a b c. lc (k a) (k b) \<le> 0 \<Longrightarrow> lc (k b) (k c) \<le> 0 \<Longrightarrow> lc (k a) (k c) \<le> 0"
    using trans by blast
  have t3: "\<And>a b c. lc (k b) (k a) \<le> 0 \<Longrightarrow> lc (k c) (k b) \<le> 0 \<Longrightarrow> lc (k c) (k a) \<le> 0"
    using trans by blast
  show "sorted_wrt (\<lambda>a b. lc (k a) (k b) \<le> 0) (arraySort (\<lambda>a b. lc (k a) (k b)) xs)"
    using sorted_arraySort [of "\<lambda>a b. lc (k a) (k b)" xs] t1 t2 by blast
  show "sorted_wrt (\<lambda>a b. lc (k b) (k a) \<le> 0) (arraySort (\<lambda>a b. lc (k b) (k a)) xs)"
    using sorted_arraySort [of "\<lambda>a b. lc (k b) (k a)" xs] t1 t3 by blast
qed

subsection \<open>The sample comparison is a total preorder\<close>

lemma codeUnitCompare_total: "codeUnitCompare a b \<le> 0 \<or> codeUnitCompare b a \<le> 0"
  by (induction a b rule: codeUnitCompare.induct) auto

lemma codeUnitCompare_trans:
  "codeUnitCompare a b \<le> 0 \<Longrightarrow> codeUnitCompare b c \<le> 0 \<Longrightarrow> codeUnitCompare a c \<le> 0"
proof (induction a arbitrary: b c)
  case Nil
  then show ?case by (cases c) auto
next
  case (Cons x a)
  from Cons.prems obtain y b' where b: "b = y # b'" by (cases b) auto
  from Cons.prems b obtain z c' where c: "c = z # c'" by (cases c) (auto split: if_splits)
  show ?case
    using Cons.prems Cons.IH [of b' c'] unfolding b c
    by (auto split: if_splits)
qed

subsection \<open>Uniqueness check, generation loop, derived view\<close>

lemma isCodeUnique_iff:
  "isCodeUnique st code excludeId =
     (\<forall>inst\<in>set (institutions st). facultyCode inst = Some code \<longrightarrow> Some (id' inst) = excludeId)"
  by (auto simp: isCodeUnique_def list_ex_iff)

lemma generateLoop_returns:
  "isCodeUnique st (gen k) None \<Longrightarrow> n \<le> k \<Longrightarrow>
     \<exists>c. generateLoop st gen (Suc n) (gen n) = Some c \<and> isCodeUnique st c None"
proof (induction "k - n" arbitrary: n)
  case 0
  then have "n = k" by simp
  with "0.prems" have "generateLoop st gen (Suc n) (gen n) = Some (gen n)"
    by (subst generateLoop.simps) simp
  with "0.prems" \<open>n = k\<close> show ?case by simp
next
  case (Suc d)
  show ?case
  proof (cases "isCodeUnique st (gen n) None")
    case True
    then have "generateLoop st gen (Suc n) (gen n) = Some (gen n)"
      by (subst generateLoop.simps) simp
    with True show ?thesis by simp
  next
    case False
    then have "generateLoop st gen (Suc n) (gen n) = generateLoop st gen (Suc (Suc n)) (gen (Suc n))"
      by (subst generateLoop.simps) simp
    moreover have "d = k - Suc n" "Suc n \<le> k" using Suc.hyps Suc.prems by simp_all
    ultimately show ?thesis using Suc.hyps(1) [of "Suc n"] Suc.prems(1) by simp
  qed
qed

lemma generateLoop_Some_unique:
  assumes "generateLoop st gen n c = Some r"
  shows "isCodeUnique st r None"
proof (rule generateLoop.raw_induct [where P = "\<lambda>st gen n c r. isCodeUnique st r None", OF _ assms])
  fix loop st' gen' n' newCode r'
  assume ih: "\<And>st gen n newCode r. loop st gen n newCode = Some r \<Longrightarrow> isCodeUnique st r None"
    and step: "(if \<not> isCodeUnique st' newCode None then loop st' gen' (Suc n') (gen' n')
                else Some newCode) = Some r'"
  show "isCodeUnique st' r' None"
  proof (cases "isCodeUnique st' newCode None")
    case True
    with step show ?thesis by simp
  next
    case False
    with step have "loop st' gen' (Suc n') (gen' n') = Some r'" by simp
    then show ?thesis by (rule ih)
  qed
qed

lemma set_sortInstitutions: "set (sortInstitutions lc l option) = set l"
  using mset_sortInstitutions [of lc l option] by (metis set_mset_mset)

lemma set_filterInstitutions: "set (filterInstitutions js l search) \<subseteq> set l"
  by (auto simp: filterInstitutions_def Let_def)

subsection \<open>Uniqueness is kept when the form code is already in upper case\<close>

text \<open>
  When the form code equals its own upper-case form, the code that is checked is the code
  that is stored: an add keeps the codes of the list distinct, and so does an edit when
  the ids of the list are distinct. Nothing is assumed about the outcome of validation
  or of the remote write: when either fails the list is unchanged.
\<close>

lemma add_institutions_cases:
  "institutions (fst (handleAddInstitution js fs st)) = institutions st
   \<or> (isCodeUnique st (formFacultyCode (formData st)) None
      \<and> (\<exists>docId. institutions (fst (handleAddInstitution js fs st))
            = institutions st @
                [\<lparr>institution = Some (trim (formInstitution (formData st))),
                  facultyCode = Some (toUpperCase js (formFacultyCode (formData st))),
                  id' = docId\<rparr>]))"
  by (simp add: handleAddInstitution_def Let_def split: sum.splits)

lemma add_keeps_codesUnique:
  assumes "codesUnique (institutions st)"
    and "toUpperCase js (formFacultyCode (formData st)) = formFacultyCode (formData st)"
  shows "codesUnique (institutions (fst (handleAddInstitution js fs st)))"
proof -
  from add_institutions_cases [of js fs st]
  show ?thesis
  proof
    assume "institutions (fst (handleAddInstitution js fs st)) = institutions st"
    with assms(1) show ?thesis by simp
  next
    assume a: "isCodeUnique st (formFacultyCode (formData st)) None
      \<and> (\<exists>docId. institutions (fst (handleAddInstitution js fs st))
            = institutions st @
                [\<lparr>institution = Some (trim (formInstitution (formData st))),
                  facultyCode = Some (toUpperCase js (formFacultyCode (formData st))),
                  id' = docId\<rparr>])"
    then obtain docId where i: "institutions (fst (handleAddInstitution js fs st))
            = institutions st @
                [\<lparr>institution = Some (trim (formInstitution (formData st))),
                  facultyCode = Some (formFacultyCode (formData st)),
                  id' = docId\<rparr>]"
      using assms(2) by auto
    from a have "\<forall>inst\<in>set (institutions st).
        facultyCode inst \<noteq> Some (formFacultyCode (formData st))"
      unfolding isCodeUnique_iff by simp
    then have "Some (formFacultyCode (formData st)) \<notin> facultyCode ` set (institutions st)"
      by (metis imageE)
    with assms(1) show ?thesis unfolding codesUnique_def i by simp
  qed
qed

lemma patched_codes_distinct:
  "distinct (map id' (l :: FacultyCodeWithId list)) \<Longrightarrow> distinct (map facultyCode l) \<Longrightarrow>
   \<forall>inst\<in>set l. facultyCode inst = Some c \<longrightarrow> id' inst = sid \<Longrightarrow>
   distinct (map (\<lambda>inst. if id' inst = sid then Some c else facultyCode inst) l)"
proof (induction l)
  case Nil
  show ?case by simp
next
  case (Cons x l)
  define k where "k = (\<lambda>inst::FacultyCodeWithId. if id' inst = sid then Some c else facultyCode inst)"
  have ih: "distinct (map k l)" using Cons unfolding k_def by simp
  have ne: "k x \<noteq> k y" if y: "y \<in> set l" for y
  proof -
    have "id' x \<notin> id' ` set l" using Cons.prems(1) by simp
    then have idy: "id' y \<noteq> id' x" using y by (metis imageI)
    have "facultyCode x \<notin> facultyCode ` set l" using Cons.prems(2) by simp
    then have cy: "facultyCode y \<noteq> facultyCode x" using y by (metis imageI)
    have hx: "facultyCode x = Some c \<Longrightarrow> id' x = sid" using Cons.prems(3) by simp
    have hy: "facultyCode y = Some c \<Longrightarrow> id' y = sid" using Cons.prems(3) y by simp
    show ?thesis
    proof (cases "id' x = sid")
      case True
      then have n: "id' y \<noteq> sid" using idy by simp
      then have "facultyCode y \<noteq> Some c" using hy by blast
      then show ?thesis unfolding k_def using True n by simp
    next
      case False
      then have nx: "facultyCode x \<noteq> Some c" using hx by blast
      show ?thesis
      proof (cases "id' y = sid")
        case True
        then show ?thesis unfolding k_def using False nx by simp
      next
        case F2: False
        then show ?thesis unfolding k_def using False cy by simp
      qed
    qed
  qed
  then have "k x \<notin> k ` set l" by blast
  with ih have "distinct (map k (x # l))" by simp
  then show ?case unfolding k_def .
qed

lemma map_patch_keeps_distinct:
  assumes "distinct (map id' (l :: FacultyCodeWithId list))" and "distinct (map facultyCode l)"
    and "\<forall>inst\<in>set l. facultyCode inst = Some c \<longrightarrow> id' inst = sid"
  shows "distinct (map facultyCode
      (map (\<lambda>inst. if id' inst = sid then inst\<lparr>institution := n, facultyCode := Some c\<rparr> else inst) l))"
proof -
  have eq: "map facultyCode
      (map (\<lambda>inst. if id' inst = sid then inst\<lparr>institution := n, facultyCode := Some c\<rparr> else inst) l)
      = map (\<lambda>inst. if id' inst = sid then Some c else facultyCode inst) l"
    by (induction l) simp_all
  show ?thesis unfolding eq by (rule patched_codes_distinct [OF assms])
qed

lemma edit_institutions_cases:
  "institutions (fst (handleEditInstitution js fs st)) = institutions st
   \<or> (\<exists>sel :: FacultyCodeWithId. isCodeUnique st (formFacultyCode (formData st)) (Some (id' sel))
        \<and> institutions (fst (handleEditInstitution js fs st))
            = map (\<lambda>inst. if id' inst = id' sel
                           then inst\<lparr>institution := Some (trim (formInstitution (formData st))),
                                     facultyCode := Some (toUpperCase js (formFacultyCode (formData st)))\<rparr>
                           else inst) (institutions st))"
proof (cases "selectedInstitution st")
  case None
  then show ?thesis by (simp add: handleEditInstitution_def)
next
  case (Some sel)
  show ?thesis
  proof (cases "fsUpdate fs ''facultyCodes'' (id' sel)
                 \<lparr>institution = Some (trim (formInstitution (formData st))),
                  facultyCode = Some (toUpperCase js (formFacultyCode (formData st)))\<rparr>")
    case (Inl e)
    with Some show ?thesis by (simp add: handleEditInstitution_def)
  next
    case (Inr u)
    show ?thesis
    proof (cases "isCodeUnique st (formFacultyCode (formData st)) (Some (id' sel))")
      case False
      with Some Inr show ?thesis by (simp add: handleEditInstitution_def)
    next
      case True
      have "institutions (fst (handleEditInstitution js fs st)) = institutions st
        \<or> institutions (fst (handleEditInstitution js fs st))
            = map (\<lambda>inst. if id' inst = id' sel
                           then inst\<lparr>institution := Some (trim (formInstitution (formData st))),
                                     facultyCode := Some (toUpperCase js (formFacultyCode (formData st)))\<rparr>
                           else inst) (institutions st)"
        using Some Inr True by (simp add: handleEditInstitution_def Let_def)
      with True show ?thesis by blast
    qed
  qed
qed

lemma edit_keeps_codesUnique:
  assumes "codesUnique (institutions st)"
    and "distinct (map id' (institutions st))"
    and "toUpperCase js (formFacultyCode (formData st)) = formFacultyCode (formData st)"
  shows "codesUnique (institutions (fst (handleEditInstitution js fs st)))"
proof -
  from edit_institutions_cases [of js fs st]
  show ?thesis
  proof
    assume "institutions (fst (handleEditInstitution js fs st)) = institutions st"
    with assms(1) show ?thesis by simp
  next
    assume "\<exists>sel :: FacultyCodeWithId. isCodeUnique st (formFacultyCode (formData st)) (Some (id' sel))
        \<and> institutions (fst (handleEditInstitution js fs st))
            = map (\<lambda>inst. if id' inst = id' sel
                           then inst\<lparr>institution := Some (trim (formInstitution (formData st))),
                                     facultyCode := Some (toUpperCase js (formFacultyCode (formData st)))\<rparr>
                           else inst) (institutions st)"
    then obtain sel :: FacultyCodeWithId
      where u: "isCodeUnique st (formFacultyCode (formData st)) (Some (id' sel))"
      and i: "institutions (fst (handleEditInstitution js fs st))
            = map (\<lambda>inst. if id' inst = id' sel
                           then inst\<lparr>institution := Some (trim (formInstitution (formData st))),
                                     facultyCode := Some (toUpperCase js (formFacultyCode (formData st)))\<rparr>
                           else inst) (institutions st)"
      by blast
    have "\<forall>inst\<in>set (institutions st).
          facultyCode inst = Some (formFacultyCode (formData st)) \<longrightarrow> id' inst = id' sel"
      using u unfolding isCodeUnique_iff by simp
    from map_patch_keeps_distinct [OF assms(2) assms(1) [unfolded codesUnique_def] this]
    show ?thesis unfolding codesUnique_def i assms(3) .
  qed
qed

section \<open>The claims\<close>

subsection \<open>C1: code uniqueness after add and edit\<close>

text \<open>
  C1 says that after a successful add or edit no two records of the list share a
  \<open>facultyCode\<close>, also when the form code differs from an existing code only in letter
  case. The handlers check the form code as typed (\<open>isCodeUnique\<close> compares with \<open>===\<close>)
  and store its upper-case form. Evaluated, with the sample case mapping, which maps these
  strings as the language does: editing the record with code \<open>abc123\<close> without
  changing the form, next to a record with code \<open>ABC123\<close>, passes validation, issues the
  update and leaves two records with code \<open>ABC123\<close>; adding with form code \<open>abc123\<close>
  next to a record with code \<open>ABC123\<close> does the same.
\<close>

theorem C1_case_variant_breaks_uniqueness:
  "codesUnique (institutions editLowerCaseState)
   \<and> snd (handleEditInstitution asciiCase workingStore editLowerCaseState)
       = [CallUpdate ''facultyCodes'' (str ''1'')
            \<lparr>institution = Some (str ''Colegio Uno''), facultyCode = Some (str ''ABC123'')\<rparr>, ConsoleLog]
   \<and> map facultyCode (institutions (fst (handleEditInstitution asciiCase workingStore editLowerCaseState)))
       = [Some (str ''ABC123''), Some (str ''ABC123'')]
   \<and> \<not> codesUnique (institutions (fst (handleEditInstitution asciiCase workingStore editLowerCaseState)))
   \<and> codesUnique (institutions addLowerCaseState)
   \<and> snd (handleAddInstitution asciiCase workingStore addLowerCaseState)
       = [CallAdd ''facultyCodes''
            \<lparr>institution = Some (str ''Colegio Nuevo''), facultyCode = Some (str ''ABC123'')\<rparr>, ConsoleLog]
   \<and> map facultyCode (institutions (fst (handleAddInstitution asciiCase workingStore addLowerCaseState)))
       = [Some (str ''ABC123''), Some (str ''ABC123'')]
   \<and> \<not> codesUnique (institutions (fst (handleAddInstitution asciiCase workingStore addLowerCaseState)))"
  by code_simp

subsection \<open>C2: the filter\<close>




subsection \<open>C3: regenerating a code\<close>

text \<open>
  C3: whenever \<open>handleGenerateNewCode\<close> returns, the code it has stored into the form
  satisfies \<open>isCodeUnique\<close>: it is the \<open>facultyCode\<close> of no record of the list; the list
  and the form name are as they were. And it does return when the generator produces, at
  some call, a code that no record of the list has.
\<close>

theorem C3_generated_code_unique:
  "(\<forall>st'. handleGenerateNewCode gen st = Some st' \<longrightarrow>
       isCodeUnique st (formFacultyCode (formData st')) None
       \<and> (\<forall>inst \<in> set (institutions st).
             facultyCode inst \<noteq> Some (formFacultyCode (formData st')))
       \<and> institutions st' = institutions st
       \<and> formInstitution (formData st') = formInstitution (formData st))
   \<and> ((\<exists>k. isCodeUnique st (gen k) None) \<longrightarrow>
        (\<exists>st'. handleGenerateNewCode gen st = Some st'))"
proof (intro conjI allI impI)
  fix st'
  assume h: "handleGenerateNewCode gen st = Some st'"
  then obtain c where c: "generateLoop st gen 1 (gen 0) = Some c"
    and s: "st' = st\<lparr>formData := (formData st)\<lparr>formFacultyCode := c\<rparr>\<rparr>"
    by (auto simp: handleGenerateNewCode_def split: option.splits)
  from c have u: "isCodeUnique st c None" by (rule generateLoop_Some_unique)
  from u show "isCodeUnique st (formFacultyCode (formData st')) None" unfolding s by simp
  from u show "\<forall>inst \<in> set (institutions st).
             facultyCode inst \<noteq> Some (formFacultyCode (formData st'))"
    unfolding s isCodeUnique_iff by simp
  show "institutions st' = institutions st" unfolding s by simp
  show "formInstitution (formData st') = formInstitution (formData st)" unfolding s by simp
next
  assume "\<exists>k. isCodeUnique st (gen k) None"
  then obtain k where "isCodeUnique st (gen k) None" by blast
  then obtain c where "generateLoop st gen (Suc 0) (gen 0) = Some c"
    using generateLoop_returns [of st gen k 0] by auto
  then show "\<exists>st'. handleGenerateNewCode gen st = Some st'"
    by (simp add: handleGenerateNewCode_def)
qed

text \<open>
  C3 with a generator that gives a code in use twice and then a new one.
\<close>

theorem C3_generated_code_unique_witness:
  "isCodeUnique regenerateState (repeatingGenerator 2) None
   \<and> handleGenerateNewCode repeatingGenerator regenerateState
       = Some (regenerateState
                \<lparr>formData := \<lparr>formInstitution = (str ''Colegio Nuevo''), formFacultyCode = (str ''QW34ER'')\<rparr>\<rparr>)
   \<and> isCodeUnique regenerateState (str ''QW34ER'') None"
proof -
  have a: "isCodeUnique regenerateState (repeatingGenerator 2) None" by code_simp
  then have x: "\<exists>k. isCodeUnique regenerateState (repeatingGenerator k) None" by blast
  have e: "handleGenerateNewCode repeatingGenerator regenerateState
       = Some (regenerateState
                \<lparr>formData := \<lparr>formInstitution = (str ''Colegio Nuevo''), formFacultyCode = (str ''QW34ER'')\<rparr>\<rparr>)"
    by code_simp
  from C3_generated_code_unique [of repeatingGenerator regenerateState] x e
  have "isCodeUnique regenerateState
          (formFacultyCode (formData (regenerateState
                \<lparr>formData := \<lparr>formInstitution = (str ''Colegio Nuevo''), formFacultyCode = (str ''QW34ER'')\<rparr>\<rparr>)))
          None" by blast
  then have "isCodeUnique regenerateState (str ''QW34ER'') None" by simp
  with a e show ?thesis by blast
qed

subsection \<open>C4: adding a code already present\<close>

text \<open>
  C4, as stated, promises the duplicate-code error whenever the form code equals the code
  of a record. The name is validated first: with an empty name the error is the
  name-required one.
\<close>

theorem C4_counterexample:
  "facultyCode rioclaro = Some (formFacultyCode (formData blankNameDuplicateState))
   \<and> rioclaro \<in> set (institutions blankNameDuplicateState)
   \<and> formError (fst (handleAddInstitution asciiCase workingStore blankNameDuplicateState)) = NameRequired
   \<and> formError (fst (handleAddInstitution asciiCase workingStore blankNameDuplicateState)) \<noteq> CodeInUse"
  by code_simp

text \<open>
  C4, amended: when the form code equals the \<open>facultyCode\<close> of a record of the list,
  \<open>handleAddInstitution\<close> issues no remote call and changes nothing of the state but
  \<open>formError\<close>, so the list is unchanged; the error it sets is the name-required one when
  the name is blank, else the code-length one when the code is blank or has not exactly 6
  code units, else the duplicate-code one.
\<close>

theorem C4_duplicate_rejected:
  assumes "inst \<in> set (institutions st)"
    and "facultyCode inst = Some (formFacultyCode (formData st))"
  shows "handleAddInstitution js fs st
           = (st\<lparr>formError :=
                  (if trim (formInstitution (formData st)) = [] then NameRequired
                   else if trim (formFacultyCode (formData st)) = []
                           \<or> length (formFacultyCode (formData st)) \<noteq> 6 then CodeLength
                   else CodeInUse)\<rparr>, [])
       \<and> snd (handleAddInstitution js fs st) = []
       \<and> institutions (fst (handleAddInstitution js fs st)) = institutions st
       \<and> (trim (formInstitution (formData st)) \<noteq> []
            \<and> trim (formFacultyCode (formData st)) \<noteq> []
            \<and> length (formFacultyCode (formData st)) = 6
          \<longrightarrow> formError (fst (handleAddInstitution js fs st)) = CodeInUse)"
proof -
  have "\<not> isCodeUnique st (formFacultyCode (formData st)) None"
    unfolding isCodeUnique_iff using assms by blast
  then show ?thesis by (simp add: handleAddInstitution_def)
qed

text \<open>
  The amended C4 at a form with a name and the code \<open>XY12AB\<close> of an existing record, and
  at a form whose name is one NO-BREAK SPACE.
\<close>

theorem C4_duplicate_rejected_witness:
  "rioclaro \<in> set (institutions duplicateAddState)
   \<and> facultyCode rioclaro = Some (formFacultyCode (formData duplicateAddState))
   \<and> handleAddInstitution asciiCase workingStore duplicateAddState
       = (duplicateAddState\<lparr>formError := CodeInUse\<rparr>, [])
   \<and> handleAddInstitution asciiCase workingStore nbspNameDuplicateState
       = (nbspNameDuplicateState\<lparr>formError := NameRequired\<rparr>, [])"
proof -
  have a: "rioclaro \<in> set (institutions duplicateAddState)" by code_simp
  have b: "facultyCode rioclaro = Some (formFacultyCode (formData duplicateAddState))" by code_simp
  have c: "trim (formInstitution (formData duplicateAddState)) \<noteq> []" by code_simp
  have d: "trim (formFacultyCode (formData duplicateAddState)) \<noteq> []" by code_simp
  have e: "length (formFacultyCode (formData duplicateAddState)) = 6" by code_simp
  have a': "rioclaro \<in> set (institutions nbspNameDuplicateState)" by code_simp
  have b': "facultyCode rioclaro = Some (formFacultyCode (formData nbspNameDuplicateState))"
    by code_simp
  have c': "trim (formInstitution (formData nbspNameDuplicateState)) = []" by code_simp
  from C4_duplicate_rejected [where js = asciiCase and fs = workingStore, OF a b] c d e
  have x: "handleAddInstitution asciiCase workingStore duplicateAddState
       = (duplicateAddState\<lparr>formError := CodeInUse\<rparr>, [])" by simp
  from C4_duplicate_rejected [where js = asciiCase and fs = workingStore, OF a' b'] c'
  have y: "handleAddInstitution asciiCase workingStore nbspNameDuplicateState
       = (nbspNameDuplicateState\<lparr>formError := NameRequired\<rparr>, [])" by simp
  from a b x y show ?thesis by blast
qed

subsection \<open>C5: what a successful add persists\<close>

text \<open>
  C5: when the form passes validation and the store's add returns \<open>docId\<close>,
  \<open>handleAddInstitution\<close> sends to the store the trimmed name and the upper-case code, and
  appends to the list the record with these two fields and the id \<open>docId\<close>.
\<close>

theorem C5_add_persists_normalised:
  assumes "trim (formInstitution (formData st)) \<noteq> []"
    and "trim (formFacultyCode (formData st)) \<noteq> []"
    and "length (formFacultyCode (formData st)) = 6"
    and "isCodeUnique st (formFacultyCode (formData st)) None"
    and "fsAdd fs ''facultyCodes''
           \<lparr>institution = Some (trim (formInstitution (formData st))),
            facultyCode = Some (toUpperCase js (formFacultyCode (formData st)))\<rparr> = Inr docId"
  shows "snd (handleAddInstitution js fs st)
           = [CallAdd ''facultyCodes''
                \<lparr>institution = Some (trim (formInstitution (formData st))),
                 facultyCode = Some (toUpperCase js (formFacultyCode (formData st)))\<rparr>,
              ConsoleLog]
       \<and> institutions (fst (handleAddInstitution js fs st))
           = institutions st @
              [\<lparr>institution = Some (trim (formInstitution (formData st))),
                facultyCode = Some (toUpperCase js (formFacultyCode (formData st))),
                id' = docId\<rparr>]"
  using assms by (simp add: handleAddInstitution_def)

text \<open>
  C5 at the name \<open>Colegio Rioclaro\<close>, padded with blanks, and the code \<open>xy12ab\<close>.
\<close>

theorem C5_add_persists_normalised_witness:
  "snd (handleAddInstitution asciiCase workingStore addRioclaroState)
     = [CallAdd ''facultyCodes''
          \<lparr>institution = Some (str ''Colegio Rioclaro''), facultyCode = Some (str ''XY12AB'')\<rparr>, ConsoleLog]
   \<and> institutions (fst (handleAddInstitution asciiCase workingStore addRioclaroState))
     = [colegioDos,
        \<lparr>institution = Some (str ''Colegio Rioclaro''), facultyCode = Some (str ''XY12AB''), id' = (str ''9'')\<rparr>]"
proof -
  have a: "trim (formInstitution (formData addRioclaroState)) \<noteq> []" by code_simp
  have b: "trim (formFacultyCode (formData addRioclaroState)) \<noteq> []" by code_simp
  have c: "length (formFacultyCode (formData addRioclaroState)) = 6" by code_simp
  have d: "isCodeUnique addRioclaroState (formFacultyCode (formData addRioclaroState)) None"
    by code_simp
  have e: "fsAdd workingStore ''facultyCodes''
           \<lparr>institution = Some (trim (formInstitution (formData addRioclaroState))),
            facultyCode = Some (toUpperCase asciiCase (formFacultyCode (formData addRioclaroState)))\<rparr>
           = Inr (str ''9'')" by code_simp
  have f: "trim (formInstitution (formData addRioclaroState)) = (str ''Colegio Rioclaro'')" by code_simp
  have g: "toUpperCase asciiCase (formFacultyCode (formData addRioclaroState)) = (str ''XY12AB'')"
    by code_simp
  have h: "institutions addRioclaroState = [colegioDos]" by code_simp
  from C5_add_persists_normalised [OF a b c d e] show ?thesis unfolding f g h by simp
qed

subsection \<open>C6: the four sort orders\<close>

text \<open>
  C6: for a string comparison that is total and transitive, the result of
  \<open>sortInstitutions\<close> holds the records of its input, each as often as the input does, and
  is ordered by that comparison on the chosen field, a missing field counting as the empty
  string: by name for \<open>alphabetical\<close>, by name with the arguments swapped for
  \<open>reverse-alphabetical\<close>, by code for \<open>code-asc\<close>, by code with the arguments swapped for
  \<open>code-desc\<close>.
\<close>

theorem C6_sort_ordered:
  assumes tot: "\<forall>a b. lc a b \<le> 0 \<or> lc b a \<le> 0"
    and trans: "\<forall>a b c. lc a b \<le> 0 \<longrightarrow> lc b c \<le> 0 \<longrightarrow> lc a c \<le> 0"
  shows "(mset (sortInstitutions lc l ''alphabetical'') = mset l
          \<and> sorted_wrt (\<lambda>a b. lc (orEmpty (institution a)) (orEmpty (institution b)) \<le> 0)
               (sortInstitutions lc l ''alphabetical''))
       \<and> (mset (sortInstitutions lc l ''reverse-alphabetical'') = mset l
          \<and> sorted_wrt (\<lambda>a b. lc (orEmpty (institution b)) (orEmpty (institution a)) \<le> 0)
               (sortInstitutions lc l ''reverse-alphabetical''))
       \<and> (mset (sortInstitutions lc l ''code-asc'') = mset l
          \<and> sorted_wrt (\<lambda>a b. lc (orEmpty (facultyCode a)) (orEmpty (facultyCode b)) \<le> 0)
               (sortInstitutions lc l ''code-asc''))
       \<and> (mset (sortInstitutions lc l ''code-desc'') = mset l
          \<and> sorted_wrt (\<lambda>a b. lc (orEmpty (facultyCode b)) (orEmpty (facultyCode a)) \<le> 0)
               (sortInstitutions lc l ''code-desc''))"
proof -
  have s: "sorted_wrt (\<lambda>a b. lc (orEmpty (institution a)) (orEmpty (institution b)) \<le> 0)
               (sortInstitutions lc l ''alphabetical'')
       \<and> sorted_wrt (\<lambda>a b. lc (orEmpty (institution b)) (orEmpty (institution a)) \<le> 0)
               (sortInstitutions lc l ''reverse-alphabetical'')
       \<and> sorted_wrt (\<lambda>a b. lc (orEmpty (facultyCode a)) (orEmpty (facultyCode b)) \<le> 0)
               (sortInstitutions lc l ''code-asc'')
       \<and> sorted_wrt (\<lambda>a b. lc (orEmpty (facultyCode b)) (orEmpty (facultyCode a)) \<le> 0)
               (sortInstitutions lc l ''code-desc'')"
    using sorted_by_key [OF tot trans, of "\<lambda>r. orEmpty (institution r)" l]
      sorted_by_key [OF tot trans, of "\<lambda>r. orEmpty (facultyCode r)" l]
    by (simp add: sortInstitutions_def)
  with mset_sortInstitutions [of lc l] show ?thesis by blast
qed

text \<open>
  C6 with the comparison by code units, on four records of which one has neither name nor
  code: by name the records come out in ascending order with the nameless record first,
  by code in descending order with the codeless record last.
\<close>

theorem C6_sort_ordered_witness:
  "sortInstitutions codeUnitCompare
      [rioclaro, colegioUno, \<lparr>institution = None, facultyCode = None, id' = str ''4''\<rparr>, colegioDos]
      ''alphabetical''
     = [\<lparr>institution = None, facultyCode = None, id' = str ''4''\<rparr>, colegioDos, rioclaro, colegioUno]
   \<and> sorted_wrt (\<lambda>a b. codeUnitCompare (orEmpty (institution a)) (orEmpty (institution b)) \<le> 0)
       [\<lparr>institution = None, facultyCode = None, id' = str ''4''\<rparr>, colegioDos, rioclaro, colegioUno]
   \<and> sortInstitutions codeUnitCompare
      [rioclaro, colegioUno, \<lparr>institution = None, facultyCode = None, id' = str ''4''\<rparr>, colegioDos]
      ''code-desc''
     = [colegioUno, rioclaro, colegioDos, \<lparr>institution = None, facultyCode = None, id' = str ''4''\<rparr>]
   \<and> sorted_wrt (\<lambda>a b. codeUnitCompare (orEmpty (facultyCode b)) (orEmpty (facultyCode a)) \<le> 0)
       [colegioUno, rioclaro, colegioDos, \<lparr>institution = None, facultyCode = None, id' = str ''4''\<rparr>]"
proof -
  have t: "\<forall>a b. codeUnitCompare a b \<le> 0 \<or> codeUnitCompare b a \<le> 0"
    using codeUnitCompare_total by blast
  have tr: "\<forall>a b c. codeUnitCompare a b \<le> 0 \<longrightarrow> codeUnitCompare b c \<le> 0 \<longrightarrow> codeUnitCompare a c \<le> 0"
    using codeUnitCompare_trans by blast
  have e: "sortInstitutions codeUnitCompare
      [rioclaro, colegioUno, \<lparr>institution = None, facultyCode = None, id' = str ''4''\<rparr>, colegioDos]
      ''alphabetical''
     = [\<lparr>institution = None, facultyCode = None, id' = str ''4''\<rparr>, colegioDos, rioclaro, colegioUno]"
    by code_simp
  have f: "sortInstitutions codeUnitCompare
      [rioclaro, colegioUno, \<lparr>institution = None, facultyCode = None, id' = str ''4''\<rparr>, colegioDos]
      ''code-desc''
     = [colegioUno, rioclaro, colegioDos, \<lparr>institution = None, facultyCode = None, id' = str ''4''\<rparr>]"
    by code_simp
  from C6_sort_ordered [OF t tr,
      of "[rioclaro, colegioUno, \<lparr>institution = None, facultyCode = None, id' = str ''4''\<rparr>, colegioDos]"]
  show ?thesis unfolding e f by blast
qed

subsection \<open>C7: deleting a record\<close>

text \<open>
  C7: when a record is selected and the remote delete succeeds, the new list is the old
  one without the records that have the selected id, every other record unchanged and in
  place; the selected record is not in it, and no record with its id is in the rendered
  list derived from it, whatever the search string and the sort option.
\<close>

theorem C7_delete_removes_selected:
  assumes "selectedInstitution st = Some sel"
    and "fsDelete fs ''facultyCodes'' (id' sel) = Inr ()"
  shows "snd (handleDeleteInstitution fs st) = [CallDelete ''facultyCodes'' (id' sel), ConsoleLog]
       \<and> institutions (fst (handleDeleteInstitution fs st))
           = filter (\<lambda>inst. id' inst \<noteq> id' sel) (institutions st)
       \<and> sel \<notin> set (institutions (fst (handleDeleteInstitution fs st)))
       \<and> (\<forall>r \<in> set (filteredInstitutions (updateFilteredInstitutions js lc
               ((fst (handleDeleteInstitution fs st))\<lparr>searchTerm := search, sortOption := option\<rparr>))).
             id' r \<noteq> id' sel)"
proof -
  have i: "institutions (fst (handleDeleteInstitution fs st))
           = filter (\<lambda>inst. id' inst \<noteq> id' sel) (institutions st)"
    using assms by (simp add: handleDeleteInstitution_def)
  have e: "snd (handleDeleteInstitution fs st) = [CallDelete ''facultyCodes'' (id' sel), ConsoleLog]"
    using assms by (simp add: handleDeleteInstitution_def)
  have v: "set (filteredInstitutions (updateFilteredInstitutions js lc
               ((fst (handleDeleteInstitution fs st))\<lparr>searchTerm := search, sortOption := option\<rparr>)))
           \<subseteq> set (institutions (fst (handleDeleteInstitution fs st)))"
    using set_filterInstitutions
    by (simp add: updateFilteredInstitutions_def Let_def set_sortInstitutions)
  have n: "\<forall>r \<in> set (institutions (fst (handleDeleteInstitution fs st))). id' r \<noteq> id' sel"
    unfolding i by simp
  from n have "sel \<notin> set (institutions (fst (handleDeleteInstitution fs st)))" by blast
  with i e v n show ?thesis by blast
qed

text \<open>
  C7 at the deletion of the second of three records.
\<close>

theorem C7_delete_removes_selected_witness:
  "selectedInstitution deleteDosState = Some colegioDos
   \<and> fsDelete workingStore ''facultyCodes'' (id' colegioDos) = Inr ()
   \<and> institutions (fst (handleDeleteInstitution workingStore deleteDosState)) = [colegioUno, rioclaro]
   \<and> colegioDos \<notin> set (institutions (fst (handleDeleteInstitution workingStore deleteDosState)))"
proof -
  have a: "selectedInstitution deleteDosState = Some colegioDos" by code_simp
  have b: "fsDelete workingStore ''facultyCodes'' (id' colegioDos) = Inr ()" by code_simp
  have c: "filter (\<lambda>inst. id' inst \<noteq> id' colegioDos) (institutions deleteDosState)
           = [colegioUno, rioclaro]" by code_simp
  from C7_delete_removes_selected [OF a b] a b show ?thesis unfolding c by blast
qed

subsection \<open>C8: a failing fetch\<close>

text \<open>
  C8: when \<open>getAll\<close> throws, \<open>fetchInstitutions\<close> sets the list to the empty list and
  \<open>isLoading\<close> to false and changes nothing else; it calls \<open>getAll\<close> once, writes to the
  error console, raises no alert and leaves \<open>formError\<close> as it was.
\<close>

theorem C8_fetch_failure_clears_list:
  assumes "fsGetAll fs ''facultyCodes'' = Inl err"
  shows "fetchInstitutions fs st
           = (st\<lparr>institutions := [], isLoading := False\<rparr>,
              [CallGetAll ''facultyCodes'', ConsoleError])
       \<and> institutions (fst (fetchInstitutions fs st)) = []
       \<and> formError (fst (fetchInstitutions fs st)) = formError st
       \<and> Alert \<notin> set (snd (fetchInstitutions fs st))
       \<and> length (filter (\<lambda>e. e = CallGetAll ''facultyCodes'') (snd (fetchInstitutions fs st))) = 1"
  using assms by (simp add: fetchInstitutions_def)

text \<open>
  C8 at a state with two records and a store that throws.
\<close>

theorem C8_fetch_failure_clears_list_witness:
  "fsGetAll failingStore ''facultyCodes'' = Inl (JsError ''unavailable'')
   \<and> institutions (fst (fetchInstitutions failingStore loadedState)) = []
   \<and> snd (fetchInstitutions failingStore loadedState) = [CallGetAll ''facultyCodes'', ConsoleError]
   \<and> formError (fst (fetchInstitutions failingStore loadedState)) = NoError"
proof -
  have a: "fsGetAll failingStore ''facultyCodes'' = Inl (JsError ''unavailable'')" by code_simp
  have b: "formError loadedState = NoError" by code_simp
  from C8_fetch_failure_clears_list [OF a, of loadedState] a b show ?thesis by simp
qed

subsection \<open>C9: editing a record without changing its code\<close>

text \<open>
  C9, as stated, holds for every record of the list. When a second record, with another
  id, has the same code, editing the first with its code unchanged is rejected with the
  duplicate-code error.
\<close>

theorem C9_counterexample:
  "colegioDos \<in> set (institutions editDuplicateState)
   \<and> selectedInstitution editDuplicateState = Some colegioDos
   \<and> facultyCode colegioDos = Some (formFacultyCode (formData editDuplicateState))
   \<and> \<not> isCodeUnique editDuplicateState (formFacultyCode (formData editDuplicateState))
         (Some (id' colegioDos))
   \<and> handleEditInstitution asciiCase workingStore editDuplicateState
       = (editDuplicateState\<lparr>formError := CodeInUse\<rparr>, [])"
  by code_simp

text \<open>
  C9, amended: for a record of the list whose code no record with a different id shares,
  \<open>isCodeUnique\<close> with the record's code and the record's id as \<open>excludeId\<close> holds, and
  \<open>handleEditInstitution\<close> on that record with the code unchanged does not set the
  duplicate-code error: the record is not counted as a duplicate of itself.
\<close>

theorem C9_unchanged_code_passes:
  assumes "r \<in> set (institutions st)"
    and "facultyCode r = Some code"
    and "\<forall>inst \<in> set (institutions st). id' inst \<noteq> id' r \<longrightarrow> facultyCode inst \<noteq> facultyCode r"
  shows "isCodeUnique st code (Some (id' r))
       \<and> (selectedInstitution st = Some r \<and> formFacultyCode (formData st) = code
            \<longrightarrow> formError (fst (handleEditInstitution js fs st)) \<noteq> CodeInUse)"
proof -
  have u: "isCodeUnique st code (Some (id' r))"
    unfolding isCodeUnique_iff using assms by auto
  have "formError (fst (handleEditInstitution js fs st)) \<noteq> CodeInUse"
    if "selectedInstitution st = Some r" "formFacultyCode (formData st) = code"
    using that u by (simp add: handleEditInstitution_def Let_def split: sum.splits)
  with u show ?thesis by blast
qed

text \<open>
  The amended C9 at a list of two records with different codes.
\<close>

theorem C9_unchanged_code_passes_witness:
  "colegioDos \<in> set (institutions editUnchangedState)
   \<and> facultyCode colegioDos = Some (str ''ABC123'')
   \<and> selectedInstitution editUnchangedState = Some colegioDos
   \<and> formFacultyCode (formData editUnchangedState) = (str ''ABC123'')
   \<and> isCodeUnique editUnchangedState (str ''ABC123'') (Some (id' colegioDos))
   \<and> formError (fst (handleEditInstitution asciiCase workingStore editUnchangedState)) \<noteq> CodeInUse"
proof -
  have a: "colegioDos \<in> set (institutions editUnchangedState)" by code_simp
  have b: "facultyCode colegioDos = Some (str ''ABC123'')" by code_simp
  have i: "institutions editUnchangedState = [colegioDos, rioclaro]" by code_simp
  have n: "facultyCode rioclaro \<noteq> facultyCode colegioDos" by code_simp
  have c: "\<forall>inst \<in> set (institutions editUnchangedState).
             id' inst \<noteq> id' colegioDos \<longrightarrow> facultyCode inst \<noteq> facultyCode colegioDos"
    unfolding i using n by simp
  have d: "selectedInstitution editUnchangedState = Some colegioDos" by code_simp
  have e: "formFacultyCode (formData editUnchangedState) = (str ''ABC123'')" by code_simp
  from C9_unchanged_code_passes [where js = asciiCase and fs = workingStore, OF a b c] a b d e
  show ?thesis by blast
qed

subsection \<open>C10: sorting permutes\<close>

text \<open>
  C10: for every comparison, list and sort option, recognised or not, the result of
  \<open>sortInstitutions\<close> has the same records with the same multiplicities as the input. On
  references: the result is a new array, and every array that existed before the call,
  the argument among them, holds what it held.
\<close>

theorem C10_sort_is_permutation:
  "mset (sortInstitutions lc l option) = mset l
   \<and> length (sortInstitutions lc l option) = length l
   \<and> (ref < length store \<longrightarrow>
        (\<exists>store' res. sortInstitutionsRef lc store ref option = Some (store', res)
           \<and> res \<noteq> ref
           \<and> store' ! ref = store ! ref
           \<and> take (length store) store' = store
           \<and> mset (store' ! res) = mset (store ! ref)))"
proof -
  have m: "mset (sortInstitutions lc l option) = mset l" by (rule mset_sortInstitutions)
  then have n: "length (sortInstitutions lc l option) = length l" by (metis size_mset)
  have "\<exists>store' res. sortInstitutionsRef lc store ref option = Some (store', res)
           \<and> res \<noteq> ref
           \<and> store' ! ref = store ! ref
           \<and> take (length store) store' = store
           \<and> mset (store' ! res) = mset (store ! ref)" if "ref < length store"
    using that
    by (simp add: sortInstitutionsRef_def Let_def nth_append mset_sortInstitutions)
  with m n show ?thesis by blast
qed

text \<open>
  C10 at an unrecognised option, and at \<open>code-asc\<close> on a store holding one array.
\<close>

theorem C10_sort_is_permutation_witness:
  "mset (sortInstitutions codeUnitCompare [rioclaro, colegioUno, colegioDos] ''no-such-option'')
     = mset [rioclaro, colegioUno, colegioDos]
   \<and> sortInstitutions codeUnitCompare [rioclaro, colegioUno, colegioDos] ''code-asc''
     = [colegioDos, rioclaro, colegioUno]
   \<and> sortInstitutionsRef codeUnitCompare [[rioclaro, colegioUno, colegioDos]] 0 ''code-asc''
     = Some ([[rioclaro, colegioUno, colegioDos], [colegioDos, rioclaro, colegioUno]], 1)"
proof -
  have a: "sortInstitutions codeUnitCompare [rioclaro, colegioUno, colegioDos] ''code-asc''
     = [colegioDos, rioclaro, colegioUno]" by code_simp
  have b: "sortInstitutionsRef codeUnitCompare [[rioclaro, colegioUno, colegioDos]] 0 ''code-asc''
     = Some ([[rioclaro, colegioUno, colegioDos], [colegioDos, rioclaro, colegioUno]], 1)"
    by code_simp
  from C10_sort_is_permutation
    [of codeUnitCompare "[rioclaro, colegioUno, colegioDos]" "''no-such-option''"]
  have "mset (sortInstitutions codeUnitCompare [rioclaro, colegioUno, colegioDos] ''no-such-option'')
     = mset [rioclaro, colegioUno, colegioDos]" by blast
  with a b show ?thesis by blast
qed

end
